theory Spec2Isabelle
  imports Complex_Main "HOL-Library.AList"
begin

section \<open>Go strings and the library functions the service calls\<close>

text \<open>
  The service is a single Go file, \<^verbatim>\<open>main.go\<close>. Every string it analyses is read
  rune by rune (\<^verbatim>\<open>range s\<close>, \<^verbatim>\<open>[]rune(s)\<close>, the \<^verbatim>\<open>regexp\<close> and \<^verbatim>\<open>strings\<close> packages
  with ASCII patterns), so a Go string is modelled by the sequence of code points that
  this decoding yields. A rune is a natural number; Go's \<^verbatim>\<open>int\<close> is taken to be 64 bits
  wide and is an \<^typ>\<open>int\<close> here, with the wrap-around written out where the code adds.
\<close>

type_synonym rune = nat
type_synonym gostring = "rune list"

text \<open>A Go string literal of ASCII characters, as its runes.\<close>

definition ascii :: "string \<Rightarrow> gostring" where
  "ascii cs = map of_char cs"

text \<open>
  \<^verbatim>\<open>unicode.IsSpace\<close>: the Latin-1 spaces and the code points with the Unicode property
  White_Space.
\<close>

definition unicode_IsSpace :: "rune \<Rightarrow> bool" where
  "unicode_IsSpace r =
     (r \<in> set [0x09, 0x0A, 0x0B, 0x0C, 0x0D, 0x20, 0x85, 0xA0, 0x1680, 0x2028, 0x2029,
                0x202F, 0x205F, 0x3000]
      \<or> (0x2000 \<le> r \<and> r \<le> 0x200A))"

text \<open>
  The character classes of package \<^verbatim>\<open>regexp\<close> (RE2 syntax) are ASCII-only:
  \<^verbatim>\<open>\s\<close> is \<^verbatim>\<open>[\t\n\f\r ]\<close>, \<^verbatim>\<open>\d\<close> is \<^verbatim>\<open>[0-9]\<close>, \<^verbatim>\<open>\w\<close> is \<^verbatim>\<open>[0-9A-Za-z_]\<close>.
\<close>

definition re_space :: "rune \<Rightarrow> bool" where
  "re_space r = (r \<in> set [0x09, 0x0A, 0x0C, 0x0D, 0x20])"

definition re_digit :: "rune \<Rightarrow> bool" where
  "re_digit r = (0x30 \<le> r \<and> r \<le> 0x39)"

definition re_letter :: "rune \<Rightarrow> bool" where
  "re_letter r = ((0x61 \<le> r \<and> r \<le> 0x7A) \<or> (0x41 \<le> r \<and> r \<le> 0x5A))"

definition re_word :: "rune \<Rightarrow> bool" where
  "re_word r = (re_digit r \<or> re_letter r \<or> r = 0x5F)"

text \<open>\<^verbatim>\<open>strings.TrimSpace\<close> removes the leading and trailing runes that \<^verbatim>\<open>unicode.IsSpace\<close> accepts.\<close>

definition strings_TrimSpace :: "gostring \<Rightarrow> gostring" where
  "strings_TrimSpace s = rev (dropWhile unicode_IsSpace (rev (dropWhile unicode_IsSpace s)))"

text \<open>
  The values an \<^verbatim>\<open>interface{}\<close> holds in the filter map \<^verbatim>\<open>map[string]interface{}\<close>
  and the type switches on it: \<^verbatim>\<open>int\<close>, \<^verbatim>\<open>bool\<close>, \<^verbatim>\<open>string\<close> and \<^verbatim>\<open>float64\<close>.
\<close>

datatype val = VInt int | VBool bool | VString gostring | VFloat real

text \<open>
  What the standard library computes from tables or algorithms that are not part of the
  repository is a parameter of the model: the lower-case mapping of \<^verbatim>\<open>unicode.ToLower\<close>
  beyond ASCII, the case-folding orbits of \<^verbatim>\<open>unicode.SimpleFold\<close> beyond ASCII, the
  hex-encoded SHA-256 digest, and \<^verbatim>\<open>fmt.Sprintf("%v", v)\<close> for a \<open>v\<close> that is not a string.
\<close>

record golib =
  toLowerTab :: "rune \<Rightarrow> rune"
  foldOrbit :: "rune \<Rightarrow> rune \<Rightarrow> bool"
  sha256hex :: "gostring \<Rightarrow> gostring"
  sprintOther :: "val \<Rightarrow> gostring"

text \<open>\<^verbatim>\<open>unicode.ToLower\<close>: ASCII is handled before the table is consulted.\<close>

definition unicode_ToLower :: "golib \<Rightarrow> rune \<Rightarrow> rune" where
  "unicode_ToLower L r =
     (if r \<le> 0x7F then (if 0x41 \<le> r \<and> r \<le> 0x5A then r + 0x20 else r)
      else toLowerTab L r)"

definition strings_ToLower :: "golib \<Rightarrow> gostring \<Rightarrow> gostring" where
  "strings_ToLower L s = map (unicode_ToLower L) s"

text \<open>
  \<^verbatim>\<open>strings.EqualFold\<close> walks both strings rune by rune; two different runes are equal
  under folding when both are ASCII and differ by letter case, or when the fold orbit of
  the smaller reaches the larger.
\<close>

definition runeEqualFold :: "golib \<Rightarrow> rune \<Rightarrow> rune \<Rightarrow> bool" where
  "runeEqualFold L a b =
     (a = b \<or>
      (let sr = min a b; tr = max a b
       in if tr < 0x80 then 0x41 \<le> sr \<and> sr \<le> 0x5A \<and> tr = sr + 0x20
          else foldOrbit L sr tr))"

definition strings_EqualFold :: "golib \<Rightarrow> gostring \<Rightarrow> gostring \<Rightarrow> bool" where
  "strings_EqualFold L s t = list_all2 (runeEqualFold L) s t"

text \<open>\<^verbatim>\<open>strings.Contains\<close> and \<^verbatim>\<open>strings.HasPrefix\<close>.\<close>

definition strings_HasPrefix :: "gostring \<Rightarrow> gostring \<Rightarrow> bool" where
  "strings_HasPrefix s p = (take (length p) s = p)"

fun strings_Contains :: "gostring \<Rightarrow> gostring \<Rightarrow> bool" where
  "strings_Contains [] sub = (sub = [])"
| "strings_Contains (c # s) sub = (strings_HasPrefix (c # s) sub \<or> strings_Contains s sub)"

text \<open>
  \<^verbatim>\<open>strconv.Atoi\<close>: an optional sign, then one or more decimal digits; a value outside
  the 64-bit \<^verbatim>\<open>int\<close> is an error. \<open>None\<close> is the error return.
\<close>

definition digitsVal :: "gostring \<Rightarrow> nat" where
  "digitsVal ds = foldl (\<lambda>a d. 10 * a + (d - 0x30)) 0 ds"

definition strconv_Atoi :: "gostring \<Rightarrow> int option" where
  "strconv_Atoi s =
     (let neg = (s \<noteq> [] \<and> hd s = 0x2D);
          body = (if s \<noteq> [] \<and> (hd s = 0x2B \<or> hd s = 0x2D) then tl s else s)
      in if body = [] \<or> \<not> list_all re_digit body then None
         else let v = (if neg then - int (digitsVal body) else int (digitsVal body))
              in if v < - (2 ^ 63) \<or> 2 ^ 63 - 1 < v then None else Some v)"

text \<open>Addition on Go's \<^verbatim>\<open>int\<close> wraps around at 64 bits.\<close>

definition wrap64 :: "int \<Rightarrow> int" where
  "wrap64 x = (x + 2 ^ 63) mod 2 ^ 64 - 2 ^ 63"

text \<open>
  Converting a rune to a string gives its UTF-8 encoding, one code point; a value that
  is not a valid code point gives U+FFFD.
\<close>

definition string_of_rune :: "rune \<Rightarrow> gostring" where
  "string_of_rune r =
     (if r < 0xD800 \<or> (0xE000 \<le> r \<and> r \<le> 0x10FFFF) then [r] else [0xFFFD])"

section \<open>The analyzer\<close>

record Properties =
  Length :: int
  IsPalindrome :: bool
  UniqueCharacters :: int
  WordCount :: int
  SHA256Hash :: gostring
  CharacterFrequencyMap :: "(gostring \<times> int) list"

record StoredString =
  ID :: gostring
  Value :: gostring
  Properties :: Properties
  CreatedAt :: gostring

text \<open>
  A Go map is an association list with distinct keys: \<^verbatim>\<open>m[k] = v\<close> is
  \<^const>\<open>AList.update\<close>, \<^verbatim>\<open>len(m)\<close> is the length of the list, \<^verbatim>\<open>delete(m, k)\<close> is
  \<^const>\<open>AList.delete\<close>. Go iterates over a map in an unspecified order; the model
  iterates in list order, and no property below depends on it.
\<close>

definition computeHash :: "golib \<Rightarrow> gostring \<Rightarrow> gostring" where
  "computeHash L s = sha256hex L s"

text \<open>\<^verbatim>\<open>m[string(r)]++\<close>: a missing key reads as 0.\<close>

definition incr :: "(gostring \<times> int) list \<Rightarrow> gostring \<Rightarrow> (gostring \<times> int) list" where
  "incr m k = AList.update k ((case map_of m k of None \<Rightarrow> 0 | Some c \<Rightarrow> c) + 1) m"

definition charFreqMap :: "gostring \<Rightarrow> (gostring \<times> int) list" where
  "charFreqMap s = foldl (\<lambda>m r. incr m (string_of_rune r)) [] s"

text \<open>
  The loop of \<^verbatim>\<open>isPalindrome\<close> on the indices \<open>i\<close> and \<open>j\<close>. An index outside the slice
  would panic: that is the result \<open>None\<close>.
\<close>

function palLoop :: "gostring \<Rightarrow> int \<Rightarrow> int \<Rightarrow> bool option" where
  "palLoop rs i j =
     (if i < j then
        (if i < 0 \<or> int (length rs) \<le> i \<or> j < 0 \<or> int (length rs) \<le> j then None
         else if rs ! nat i \<noteq> rs ! nat j then Some False
         else palLoop rs (i + 1) (j - 1))
      else Some True)"
  by pat_completeness auto
termination
  by (relation "measure (\<lambda>(rs, i, j). nat (j - i))") auto

declare palLoop.simps [simp del]

definition isPalindrome :: "golib \<Rightarrow> gostring \<Rightarrow> bool option" where
  "isPalindrome L s = (let rs = strings_ToLower L s in palLoop rs 0 (int (length rs) - 1))"

text \<open>
  \<^verbatim>\<open>regexp.MustCompile(`\s+`).Split(s, -1)\<close>: the pieces of \<open>s\<close> between the maximal
  runs of \<^verbatim>\<open>\s\<close> runes; a run at the start or at the end leaves an empty piece there, and
  the empty string gives one empty piece.
\<close>

function splitRuns :: "(rune \<Rightarrow> bool) \<Rightarrow> gostring \<Rightarrow> gostring list" where
  "splitRuns sep s =
     (let w = takeWhile (\<lambda>r. \<not> sep r) s; rest = dropWhile (\<lambda>r. \<not> sep r) s
      in if rest = [] then [w] else w # splitRuns sep (dropWhile sep rest))"
  by pat_completeness auto
termination
proof (relation "measure (\<lambda>(sep, s). length s)")
  show "wf (measure (\<lambda>(sep :: rune \<Rightarrow> bool, s :: gostring). length s))"
    by simp
next
  fix sep :: "rune \<Rightarrow> bool" and s w rest :: gostring
  assume "rest = dropWhile (\<lambda>r. \<not> sep r) s" and "rest \<noteq> []"
  then have ne: "dropWhile (\<lambda>r. \<not> sep r) s \<noteq> []"
    by simp
  then obtain a t where at: "dropWhile (\<lambda>r. \<not> sep r) s = a # t"
    by (cases "dropWhile (\<lambda>r. \<not> sep r) s") auto
  have "sep a"
    using hd_dropWhile [OF ne] at by simp
  then have "length (dropWhile sep (a # t)) \<le> length t"
    by (simp add: length_dropWhile_le)
  moreover have "length (a # t) \<le> length s"
    using length_dropWhile_le [of "\<lambda>r. \<not> sep r" s] at by simp
  ultimately have "length (dropWhile sep (dropWhile (\<lambda>r. \<not> sep r) s)) < length s"
    using at by simp
  then show "((sep, dropWhile sep rest), (sep, s)) \<in> measure (\<lambda>(sep, s). length s)"
    using \<open>rest = dropWhile (\<lambda>r. \<not> sep r) s\<close> by simp
qed

declare splitRuns.simps [simp del]

definition wordCount :: "gostring \<Rightarrow> int" where
  "wordCount s =
     (let trimmed = strings_TrimSpace s
      in if trimmed = [] then 0
         else let parts = splitRuns re_space trimmed in int (length parts))"

definition analyzeString :: "golib \<Rightarrow> gostring \<Rightarrow> Properties option" where
  "analyzeString L s =
     (let freq = charFreqMap s
      in case isPalindrome L s of
           None \<Rightarrow> None
         | Some pal \<Rightarrow>
             Some \<lparr> Length = int (length s),
                    IsPalindrome = pal,
                    UniqueCharacters = int (length freq),
                    WordCount = wordCount s,
                    SHA256Hash = computeHash L s,
                    CharacterFrequencyMap = freq \<rparr>)"

section \<open>The natural-language translator\<close>

text \<open>
  The regular expressions of \<^verbatim>\<open>parseNaturalLanguage\<close> are sequences of a literal, of
  \<^verbatim>\<open>\s+\<close> or \<^verbatim>\<open>\d+\<close>, and of one letter. A greedy \<^verbatim>\<open>\s+\<close> or \<^verbatim>\<open>\d+\<close> is always followed by
  something that no rune of the class starts, so the match from a given position takes the
  whole run, and is unique. A matcher reads the input from one position and returns the
  groups it captured with the input left over.
\<close>

definition reLit :: "gostring \<Rightarrow> gostring \<Rightarrow> gostring option" where
  "reLit p s = (if strings_HasPrefix s p then Some (drop (length p) s) else None)"

definition rePlus :: "(rune \<Rightarrow> bool) \<Rightarrow> gostring \<Rightarrow> (gostring \<times> gostring) option" where
  "rePlus cls s =
     (if takeWhile cls s = [] then None else Some (takeWhile cls s, dropWhile cls s))"

definition reOne :: "(rune \<Rightarrow> bool) \<Rightarrow> gostring \<Rightarrow> (gostring \<times> gostring) option" where
  "reOne cls s = (case s of [] \<Rightarrow> None | c # t \<Rightarrow> if cls c then Some ([c], t) else None)"

type_synonym matcher = "rune option \<Rightarrow> gostring \<Rightarrow> (gostring list \<times> gostring) option"

text \<open>\<^verbatim>\<open>longer than\s+(\d+)\<close>\<close>

definition reLonger :: matcher where
  "reLonger prev s =
     (case reLit (ascii ''longer than'') s of None \<Rightarrow> None | Some s1 \<Rightarrow>
      case rePlus re_space s1 of None \<Rightarrow> None | Some (ws, s2) \<Rightarrow>
      case rePlus re_digit s2 of None \<Rightarrow> None | Some (d, s3) \<Rightarrow> Some ([d], s3))"

text \<open>\<^verbatim>\<open>longer than\s+(\d+)\s+characters\<close>\<close>

definition reLonger2 :: matcher where
  "reLonger2 prev s =
     (case reLit (ascii ''longer than'') s of None \<Rightarrow> None | Some s1 \<Rightarrow>
      case rePlus re_space s1 of None \<Rightarrow> None | Some (ws, s2) \<Rightarrow>
      case rePlus re_digit s2 of None \<Rightarrow> None | Some (d, s3) \<Rightarrow>
      case rePlus re_space s3 of None \<Rightarrow> None | Some (ws', s4) \<Rightarrow>
      case reLit (ascii ''characters'') s4 of None \<Rightarrow> None | Some s5 \<Rightarrow> Some ([d], s5))"

text \<open>
  \<^verbatim>\<open>containing the letter\s+([a-zA-Z])|contain the letter\s+([a-zA-Z])|containing\s+([a-zA-Z])|contain\s+([a-zA-Z])\<close>:
  at one position the first alternative that matches wins; the groups of the other
  alternatives are empty.
\<close>

definition reContainsAlt :: "gostring \<Rightarrow> gostring \<Rightarrow> (gostring \<times> gostring) option" where
  "reContainsAlt p s =
     (case reLit p s of None \<Rightarrow> None | Some s1 \<Rightarrow>
      case rePlus re_space s1 of None \<Rightarrow> None | Some (ws, s2) \<Rightarrow> reOne re_letter s2)"

definition reContains :: matcher where
  "reContains prev s =
     (case reContainsAlt (ascii ''containing the letter'') s of
        Some (c, rest) \<Rightarrow> Some ([c, [], [], []], rest)
      | None \<Rightarrow>
     (case reContainsAlt (ascii ''contain the letter'') s of
        Some (c, rest) \<Rightarrow> Some ([[], c, [], []], rest)
      | None \<Rightarrow>
     (case reContainsAlt (ascii ''containing'') s of
        Some (c, rest) \<Rightarrow> Some ([[], [], c, []], rest)
      | None \<Rightarrow>
     (case reContainsAlt (ascii ''contain'') s of
        Some (c, rest) \<Rightarrow> Some ([[], [], [], c], rest)
      | None \<Rightarrow> None))))"

text \<open>
  \<^verbatim>\<open>\b(\d+)\s+word\<close>: the word boundary before a digit holds when the rune before it is
  not a word rune, or at the start of the text.
\<close>

definition reWords :: matcher where
  "reWords prev s =
     (if (case prev of None \<Rightarrow> False | Some p \<Rightarrow> re_word p) then None
      else case rePlus re_digit s of None \<Rightarrow> None | Some (d, s1) \<Rightarrow>
           case rePlus re_space s1 of None \<Rightarrow> None | Some (ws, s2) \<Rightarrow>
           case reLit (ascii ''word'') s2 of None \<Rightarrow> None | Some s3 \<Rightarrow> Some ([d], s3))"

text \<open>
  \<^verbatim>\<open>FindStringSubmatch\<close>: the leftmost match, as the matched text followed by the groups;
  \<^verbatim>\<open>nil\<close>, the empty list, when there is no match. \<open>prev\<close> is the rune before the position.
\<close>

fun FindStringSubmatch :: "matcher \<Rightarrow> rune option \<Rightarrow> gostring \<Rightarrow> gostring list" where
  "FindStringSubmatch re prev [] =
     (case re prev [] of Some (gs, rest) \<Rightarrow> [] # gs | None \<Rightarrow> [])"
| "FindStringSubmatch re prev (c # s) =
     (case re prev (c # s) of
        Some (gs, rest) \<Rightarrow> take (length (c # s) - length rest) (c # s) # gs
      | None \<Rightarrow> FindStringSubmatch re (Some c) s)"

datatype nlError = EmptyQuery | Unparseable | ConflictingFilters

text \<open>The text of each error, \<^verbatim>\<open>err.Error()\<close>.\<close>

fun errorText :: "nlError \<Rightarrow> string" where
  "errorText EmptyQuery = ''empty query''"
| "errorText Unparseable = ''unable to parse natural language query''"
| "errorText ConflictingFilters = ''conflicting filters''"

type_synonym filters = "(string \<times> val) list"

text \<open>The conversion \<^verbatim>\<open>int(f)\<close> of a \<^verbatim>\<open>float64\<close> truncates towards zero.\<close>

definition int_of_float :: "real \<Rightarrow> int" where
  "int_of_float f = (if 0 \<le> f then \<lfloor>f\<rfloor> else \<lceil>f\<rceil>)"

text \<open>The blocks of \<^verbatim>\<open>parseNaturalLanguage\<close>, in the order of the source.\<close>

definition nlSingleWord :: "gostring \<Rightarrow> filters \<Rightarrow> filters" where
  "nlSingleWord q parsed =
     (if strings_Contains q (ascii ''single word'') \<or> strings_Contains q (ascii ''single-word'')
         \<or> strings_Contains q (ascii ''one word'')
      then AList.update ''word_count'' (VInt 1) parsed else parsed)"

definition nlPalindrome :: "gostring \<Rightarrow> filters \<Rightarrow> filters" where
  "nlPalindrome q parsed =
     (if strings_Contains q (ascii ''palindrom'')
      then AList.update ''is_palindrome'' (VBool True) parsed else parsed)"

definition nlMinLength :: "matcher \<Rightarrow> gostring \<Rightarrow> filters \<Rightarrow> filters" where
  "nlMinLength re q parsed =
     (let m = FindStringSubmatch re None q
      in if length m = 2 then
           (case strconv_Atoi (m ! 1) of
              Some n \<Rightarrow> AList.update ''min_length'' (VInt (wrap64 (n + 1))) parsed
            | None \<Rightarrow> parsed)
         else parsed)"

fun firstNonEmpty :: "gostring list \<Rightarrow> nat list \<Rightarrow> gostring option" where
  "firstNonEmpty m [] = None"
| "firstNonEmpty m (i # is) = (if m ! i \<noteq> [] then Some (m ! i) else firstNonEmpty m is)"

definition nlContains :: "golib \<Rightarrow> gostring \<Rightarrow> filters \<Rightarrow> filters" where
  "nlContains L q parsed =
     (let m = FindStringSubmatch reContains None q
      in if 5 \<le> length m then
           (case firstNonEmpty m [1, 2, 3, 4] of
              Some g \<Rightarrow> AList.update ''contains_character'' (VString (strings_ToLower L g)) parsed
            | None \<Rightarrow> parsed)
         else parsed)"

definition nlFirstVowel :: "gostring \<Rightarrow> filters \<Rightarrow> filters" where
  "nlFirstVowel q parsed =
     (if strings_Contains q (ascii ''first vowel'') \<or> strings_Contains q (ascii ''first vowel a'')
      then AList.update ''contains_character'' (VString (ascii ''a'')) parsed else parsed)"

definition nlWords :: "gostring \<Rightarrow> filters \<Rightarrow> filters" where
  "nlWords q parsed =
     (if map_of parsed ''word_count'' = None then
        (let m = FindStringSubmatch reWords None q
         in if length m = 2 then
              (case strconv_Atoi (m ! 1) of
                 Some n \<Rightarrow> AList.update ''word_count'' (VInt n) parsed
               | None \<Rightarrow> parsed)
            else parsed)
      else parsed)"

definition nlConflict :: "filters \<Rightarrow> bool" where
  "nlConflict parsed =
     (case map_of parsed ''min_length'' of
        Some (VInt mn) \<Rightarrow>
          (case map_of parsed ''max_length'' of
             Some (VInt mx) \<Rightarrow> mx < mn
           | Some (VFloat maxf) \<Rightarrow> int_of_float maxf < mn
           | _ \<Rightarrow> False)
      | _ \<Rightarrow> False)"

definition nlRules :: "golib \<Rightarrow> gostring \<Rightarrow> filters" where
  "nlRules L q =
     nlWords q (nlFirstVowel q (nlContains L q (nlMinLength reLonger2 q
       (nlMinLength reLonger q (nlPalindrome q (nlSingleWord q []))))))"

definition parseNaturalLanguage :: "golib \<Rightarrow> gostring \<Rightarrow> nlError + filters" where
  "parseNaturalLanguage L query =
     (let q = strings_ToLower L (strings_TrimSpace query)
      in if q = [] then Inl EmptyQuery
         else let parsed = nlRules L q
              in if length parsed = 0 then Inl Unparseable
                 else if nlConflict parsed then Inl ConflictingFilters
                 else Inr parsed)"

section \<open>The store and the handlers\<close>

text \<open>
  The global \<^verbatim>\<open>store.m\<close>, a \<^verbatim>\<open>map[string]StoredString\<close> keyed by the hash. A handler
  takes the store and returns its response with the store it leaves behind. What the
  transport decodes is an input: the method, the decoded JSON body, the query parameters
  (\<^verbatim>\<open>q.Get\<close> gives the empty string for a missing one), the unescaped path, and the
  time stamp of \<^verbatim>\<open>time.Now\<close>.
\<close>

type_synonym store = "(gostring \<times> StoredString) list"

datatype httpMethod = GET | POST | DELETE | OtherMethod

text \<open>The \<^verbatim>\<open>interface{}\<close> of the field \<^verbatim>\<open>value\<close>: \<^verbatim>\<open>nil\<close>, a string, or any other JSON value.\<close>

datatype jsonValue = JNull | JString gostring | JOther

datatype CreateReq = CreateReq (reqValue: jsonValue)

datatype body =
    ErrorBody string
  | ItemBody StoredString
  | ListBody "StoredString list" int filters
  | QueryBody "StoredString list" int gostring filters

text \<open>
  A response is the status code with the JSON body that \<^verbatim>\<open>writeJSON\<close> wrote, if any;
  \<open>Panicked\<close> stands for a run-time panic of the handler.
\<close>

datatype response = Response nat "body option" | Panicked

definition writeJSON :: "nat \<Rightarrow> body \<Rightarrow> response" where
  "writeJSON code v = Response code (Some v)"

definition validateCreateBody :: "CreateReq \<Rightarrow> (nat \<times> string) + gostring" where
  \<open>validateCreateBody body =
     (case reqValue body of
        JNull \<Rightarrow> Inl (400, ''missing "value" field'')
      | JString v \<Rightarrow> Inr v
      | JOther \<Rightarrow> Inl (422, ''"value" must be a string''))\<close>

text \<open>
  \<^verbatim>\<open>postStringsHandler\<close> reads the store in one critical section (\<^verbatim>\<open>RLock\<close> to
  \<^verbatim>\<open>RUnlock\<close>) and writes it in another (\<^verbatim>\<open>Lock\<close> to \<^verbatim>\<open>Unlock\<close>). \<open>postLookup\<close> is
  the handler from the analysis up to the end of the first section: it answers with the
  conflict, or goes on with the item to insert. \<open>postInsert\<close> is the second section.
\<close>

definition postLookup :: "golib \<Rightarrow> gostring \<Rightarrow> gostring \<Rightarrow> store \<Rightarrow> response + StoredString" where
  "postLookup L now v st =
     (case analyzeString L v of
        None \<Rightarrow> Inl Panicked
      | Some props \<Rightarrow>
          (let id = SHA256Hash props;
               exists = (map_of st id \<noteq> None)
           in if exists
              then Inl (writeJSON 409 (ErrorBody ''string already exists in the system''))
              else Inr \<lparr> ID = id, Value = v, Properties = props, CreatedAt = now \<rparr>))"

definition postInsert :: "store \<Rightarrow> StoredString \<Rightarrow> store" where
  "postInsert st item = AList.update (ID item) item st"

definition postStringsHandler ::
  "golib \<Rightarrow> gostring \<Rightarrow> httpMethod \<Rightarrow> CreateReq option \<Rightarrow> store \<Rightarrow> response \<times> store" where
  "postStringsHandler L now method decoded st =
     (if method \<noteq> POST then (Response 405 None, st)
      else case decoded of
        None \<Rightarrow> (writeJSON 400 (ErrorBody ''invalid JSON body''), st)
      | Some body \<Rightarrow>
          (case validateCreateBody body of
             Inl (code, err) \<Rightarrow> (writeJSON code (ErrorBody err), st)
           | Inr v \<Rightarrow>
               (case postLookup L now v st of
                  Inl r \<Rightarrow> (r, st)
                | Inr item \<Rightarrow> (writeJSON 201 (ItemBody item), postInsert st item))))"

text \<open>\<^verbatim>\<open>getStringByValueHandler\<close>; \<open>decoded\<close> is the result of \<^verbatim>\<open>url.PathUnescape\<close>.\<close>

definition getStringByValueHandler ::
  "golib \<Rightarrow> httpMethod \<Rightarrow> gostring option \<Rightarrow> store \<Rightarrow> response \<times> store" where
  "getStringByValueHandler L method decoded st =
     (if method \<noteq> GET then (Response 405 None, st)
      else case decoded of
        None \<Rightarrow> (writeJSON 400 (ErrorBody ''invalid URL-encoded string''), st)
      | Some d \<Rightarrow>
          if d = [] then (writeJSON 400 (ErrorBody ''missing string value in path''), st)
          else (case map_of st (computeHash L d) of
                  None \<Rightarrow> (writeJSON 404 (ErrorBody ''string does not exist in the system''), st)
                | Some item \<Rightarrow> (writeJSON 200 (ItemBody item), st)))"

definition deleteStringHandler ::
  "golib \<Rightarrow> httpMethod \<Rightarrow> gostring option \<Rightarrow> store \<Rightarrow> response \<times> store" where
  "deleteStringHandler L method decoded st =
     (if method \<noteq> DELETE then (Response 405 None, st)
      else case decoded of
        None \<Rightarrow> (writeJSON 400 (ErrorBody ''invalid URL-encoded string''), st)
      | Some d \<Rightarrow>
          if d = [] then (writeJSON 400 (ErrorBody ''missing string value in path''), st)
          else (let id = computeHash L d
                in if map_of st id = None
                   then (writeJSON 404 (ErrorBody ''string does not exist in the system''), st)
                   else (Response 204 None, AList.delete id st)))"

subsection \<open>Structured filters\<close>

definition parseBoolParam :: "gostring \<Rightarrow> bool option" where
  "parseBoolParam v =
     (if v = ascii ''true'' then Some True
      else if v = ascii ''false'' then Some False
      else None)"

record listFilter =
  filterIsPalindrome :: "bool option"
  minLength :: "int option"
  maxLength :: "int option"
  wordCountFilter :: "int option"
  containsCharacter :: "rune option"

definition intParam :: "gostring \<Rightarrow> string \<Rightarrow> string + int option" where
  "intParam v msg =
     (if v = [] then Inr None
      else case strconv_Atoi v of
             None \<Rightarrow> Inl msg
           | Some x \<Rightarrow> if x < 0 then Inl msg else Inr (Some x))"

definition parseListParams :: "golib \<Rightarrow> (string \<Rightarrow> gostring) \<Rightarrow> string + listFilter" where
  "parseListParams L qGet =
     (case (if qGet ''is_palindrome'' = [] then Inr None
            else case parseBoolParam (strings_ToLower L (qGet ''is_palindrome'')) of
                   None \<Rightarrow> Inl ''invalid is_palindrome value''
                 | Some b \<Rightarrow> Inr (Some b)) of
        Inl e \<Rightarrow> Inl e
      | Inr pal \<Rightarrow>
     (case intParam (qGet ''min_length'') ''invalid min_length'' of
        Inl e \<Rightarrow> Inl e
      | Inr mn \<Rightarrow>
     (case intParam (qGet ''max_length'') ''invalid max_length'' of
        Inl e \<Rightarrow> Inl e
      | Inr mx \<Rightarrow>
     (case intParam (qGet ''word_count'') ''invalid word_count'' of
        Inl e \<Rightarrow> Inl e
      | Inr wc \<Rightarrow>
     (case (if qGet ''contains_character'' = [] then Inr None
            else if length (qGet ''contains_character'') \<noteq> 1
                 then Inl ''contains_character must be a single character''
                 else Inr (Some (qGet ''contains_character'' ! 0))) of
        Inl e \<Rightarrow> Inl e
      | Inr cc \<Rightarrow>
          Inr \<lparr> filterIsPalindrome = pal, minLength = mn, maxLength = mx,
                wordCountFilter = wc, containsCharacter = cc \<rparr>)))))"

text \<open>
  The inner loop over the keys of the frequency map: \<^verbatim>\<open>[]rune(ch)[0]\<close> panics on an
  empty key (\<open>None\<close>), and the loop stops at the first key that matches.
\<close>

fun findRune :: "gostring list \<Rightarrow> rune \<Rightarrow> bool option" where
  "findRune [] c = Some False"
| "findRune (ch # chs) c =
     (case ch of
        [] \<Rightarrow> None
      | r # rest \<Rightarrow> if r = c then Some True else findRune chs c)"

text \<open>The body of the loop over the store in \<^verbatim>\<open>getAllStringsHandler\<close>: the final value of \<^verbatim>\<open>ok\<close>.\<close>

definition itemOk :: "listFilter \<Rightarrow> StoredString \<Rightarrow> bool option" where
  "itemOk flt item =
     (let p = Properties item;
          ok1 = \<not> (case filterIsPalindrome flt of None \<Rightarrow> False | Some b \<Rightarrow> IsPalindrome p \<noteq> b);
          ok2 = \<not> (case minLength flt of None \<Rightarrow> False | Some n \<Rightarrow> Length p < n);
          ok3 = \<not> (case maxLength flt of None \<Rightarrow> False | Some n \<Rightarrow> n < Length p);
          ok4 = \<not> (case wordCountFilter flt of None \<Rightarrow> False | Some n \<Rightarrow> WordCount p \<noteq> n)
      in case containsCharacter flt of
           None \<Rightarrow> Some (ok1 \<and> ok2 \<and> ok3 \<and> ok4)
         | Some c \<Rightarrow>
             (case findRune (map fst (CharacterFrequencyMap p)) c of
                None \<Rightarrow> None
              | Some found \<Rightarrow> Some (ok1 \<and> ok2 \<and> ok3 \<and> ok4 \<and> found)))"

fun scanStore :: "listFilter \<Rightarrow> StoredString list \<Rightarrow> StoredString list option" where
  "scanStore flt [] = Some []"
| "scanStore flt (item # items) =
     (case itemOk flt item of
        None \<Rightarrow> None
      | Some ok \<Rightarrow>
          (case scanStore flt items of
             None \<Rightarrow> None
           | Some results \<Rightarrow> Some (if ok then item # results else results)))"

definition filtersApplied :: "listFilter \<Rightarrow> filters" where
  "filtersApplied flt =
     (let f1 = (case filterIsPalindrome flt of None \<Rightarrow> []
                | Some b \<Rightarrow> AList.update ''is_palindrome'' (VBool b) []);
          f2 = (case minLength flt of None \<Rightarrow> f1
                | Some n \<Rightarrow> AList.update ''min_length'' (VInt n) f1);
          f3 = (case maxLength flt of None \<Rightarrow> f2
                | Some n \<Rightarrow> AList.update ''max_length'' (VInt n) f2);
          f4 = (case wordCountFilter flt of None \<Rightarrow> f3
                | Some n \<Rightarrow> AList.update ''word_count'' (VInt n) f3)
      in case containsCharacter flt of None \<Rightarrow> f4
         | Some c \<Rightarrow> AList.update ''contains_character'' (VString (string_of_rune c)) f4)"

definition getAllStringsHandler ::
  "golib \<Rightarrow> httpMethod \<Rightarrow> (string \<Rightarrow> gostring) \<Rightarrow> store \<Rightarrow> response \<times> store" where
  "getAllStringsHandler L method qGet st =
     (if method \<noteq> GET then (Response 405 None, st)
      else case parseListParams L qGet of
        Inl e \<Rightarrow> (writeJSON 400 (ErrorBody e), st)
      | Inr flt \<Rightarrow>
          (case scanStore flt (map snd st) of
             None \<Rightarrow> (Panicked, st)
           | Some results \<Rightarrow>
               (writeJSON 200 (ListBody results (int (length results)) (filtersApplied flt)), st)))"

subsection \<open>Natural-language filters\<close>

definition fmt_Sprintf_v :: "golib \<Rightarrow> val \<Rightarrow> gostring" where
  "fmt_Sprintf_v L v = (case v of VString s \<Rightarrow> s | _ \<Rightarrow> sprintOther L v)"

text \<open>The body of the loop over the store in \<^verbatim>\<open>applyParsedFilters\<close>.\<close>

definition parsedOk :: "golib \<Rightarrow> filters \<Rightarrow> StoredString \<Rightarrow> bool" where
  "parsedOk L parsed item =
     (let p = Properties item;
          ok1 = (case map_of parsed ''is_palindrome'' of
                   Some (VBool b) \<Rightarrow> IsPalindrome p = b | _ \<Rightarrow> True);
          ok2 = (case map_of parsed ''word_count'' of
                   Some (VInt vv) \<Rightarrow> WordCount p = vv
                 | Some (VFloat vv) \<Rightarrow> WordCount p = int_of_float vv
                 | _ \<Rightarrow> True);
          ok3 = (case map_of parsed ''min_length'' of
                   Some (VInt vv) \<Rightarrow> \<not> Length p < vv
                 | Some (VFloat vv) \<Rightarrow> \<not> Length p < int_of_float vv
                 | _ \<Rightarrow> True);
          ok4 = (case map_of parsed ''max_length'' of
                   Some (VInt vv) \<Rightarrow> \<not> vv < Length p
                 | Some (VFloat vv) \<Rightarrow> \<not> int_of_float vv < Length p
                 | _ \<Rightarrow> True);
          ok5 = (case map_of parsed ''contains_character'' of
                   None \<Rightarrow> True
                 | Some v \<Rightarrow>
                     (let chStr = fmt_Sprintf_v L v
                      in if chStr = [] then False
                         else list_ex (\<lambda>ch. strings_EqualFold L ch chStr)
                                (map fst (CharacterFrequencyMap p))))
      in ok1 \<and> ok2 \<and> ok3 \<and> ok4 \<and> ok5)"

definition applyParsedFilters :: "golib \<Rightarrow> filters \<Rightarrow> store \<Rightarrow> StoredString list" where
  "applyParsedFilters L parsed st = filter (parsedOk L parsed) (map snd st)"

definition naturalLanguageHandler ::
  "golib \<Rightarrow> httpMethod \<Rightarrow> gostring \<Rightarrow> store \<Rightarrow> response \<times> store" where
  "naturalLanguageHandler L method q st =
     (if method \<noteq> GET then (Response 405 None, st)
      else if q = [] then (writeJSON 400 (ErrorBody ''query parameter is required''), st)
      else case parseNaturalLanguage L q of
        Inl err \<Rightarrow> (writeJSON 400 (ErrorBody (errorText err)), st)
      | Inr parsed \<Rightarrow>
          (let results = applyParsedFilters L parsed st
           in (writeJSON 200 (QueryBody results (int (length results)) q parsed), st)))"

subsection \<open>Concurrent requests\<close>

text \<open>
  Each request runs in its own goroutine. Between two critical sections of one goroutine
  any other goroutine may run; inside a section none does. A creating goroutine is
  therefore in one of three states: before its read of the store, between its read and
  its write (holding the item it decided to insert), or finished with its response. A
  schedule names the goroutine that takes the next step.
\<close>

datatype goroutine = Created gostring gostring | Looked StoredString | Finished response

definition stepGoroutine :: "golib \<Rightarrow> goroutine \<Rightarrow> store \<Rightarrow> goroutine \<times> store" where
  "stepGoroutine L g st =
     (case g of
        Created v now \<Rightarrow>
          (case postLookup L now v st of
             Inl r \<Rightarrow> (Finished r, st)
           | Inr item \<Rightarrow> (Looked item, st))
      | Looked item \<Rightarrow> (Finished (writeJSON 201 (ItemBody item)), postInsert st item)
      | Finished r \<Rightarrow> (Finished r, st))"

fun runSchedule :: "golib \<Rightarrow> nat list \<Rightarrow> goroutine list \<times> store \<Rightarrow> goroutine list \<times> store" where
  "runSchedule L [] cfg = cfg"
| "runSchedule L (i # sched) (gs, st) =
     (if i < length gs
      then (let (g', st') = stepGoroutine L (gs ! i) st
            in runSchedule L sched (gs[i := g'], st'))
      else runSchedule L sched (gs, st))"

text \<open>The stores that requests can produce: from the empty store, by the two writes of the code.\<close>

inductive reachable :: "golib \<Rightarrow> store \<Rightarrow> bool" for L :: golib where
  reach_empty: "reachable L []"
| reach_insert:
    "reachable L st \<Longrightarrow> postLookup L now v st0 = Inr item \<Longrightarrow> reachable L (postInsert st item)"
| reach_delete: "reachable L st \<Longrightarrow> reachable L (AList.delete key st)"

text \<open>A goroutine between its two sections holds an item that its lookup has produced.\<close>

fun pending :: "golib \<Rightarrow> goroutine \<Rightarrow> bool" where
  "pending L (Looked item) = (\<exists>now v st0. postLookup L now v st0 = Inr item)"
| "pending L g = True"


text \<open>
  An instance of the library parameters, for evaluating the model on ASCII inputs: no
  case mapping and no fold orbit beyond ASCII, and the identity in place of the digest
  (injective, as SHA-256 is taken to be).
\<close>

definition asciiLib :: golib where
  "asciiLib = \<lparr> toLowerTab = (\<lambda>r. r), foldOrbit = (\<lambda>a b. False),
                sha256hex = (\<lambda>s. s), sprintOther = (\<lambda>v. []) \<rparr>"

section \<open>Properties of the analyzer\<close>

subsection \<open>The palindrome loop\<close>

lemma palLoop_inv:
  "0 \<le> i \<Longrightarrow> j < int (length rs) \<Longrightarrow>
   palLoop rs i j = Some (\<forall>k. i \<le> k \<and> k \<le> j \<longrightarrow> rs ! nat k = rs ! nat (i + j - k))"
proof (induction rs i j rule: palLoop.induct)
  case (1 rs i j)
  let ?P = "\<lambda>i j. \<forall>k. i \<le> k \<and> k \<le> j \<longrightarrow> rs ! nat k = rs ! nat (i + j - k)"
  show ?case
  proof (cases "i < j")
    case False
    have "?P i j"
    proof (intro allI impI)
      fix k assume "i \<le> k \<and> k \<le> j"
      with False have "k = i" and "j = i" by auto
      then show "rs ! nat k = rs ! nat (i + j - k)" by simp
    qed
    then have P: "?P i j = True" by (rule eqTrueI)
    have "palLoop rs i j = Some True"
      using False by (subst palLoop.simps) simp
    then show ?thesis by (simp only: P)
  next
    case True
    note lt = this
    have rng: "\<not> (i < 0 \<or> int (length rs) \<le> i \<or> j < 0 \<or> int (length rs) \<le> j)"
      using "1.prems" lt by auto
    show ?thesis
    proof (cases "rs ! nat i = rs ! nat j")
      case False
      have "\<not> ?P i j"
      proof
        assume "?P i j"
        then have "i \<le> i \<and> i \<le> j \<longrightarrow> rs ! nat i = rs ! nat (i + j - i)" by (rule spec)
        with lt False show False by simp
      qed
      then have P: "?P i j = False" by blast
      have "palLoop rs i j = Some False"
        using False lt rng by (subst palLoop.simps) simp
      then show ?thesis by (simp only: P)
    next
      case eq: True
      have ih: "palLoop rs (i + 1) (j - 1) =
          Some (\<forall>k. i + 1 \<le> k \<and> k \<le> j - 1 \<longrightarrow> rs ! nat k = rs ! nat (i + 1 + (j - 1) - k))"
        using lt rng eq "1.prems" by (intro "1.IH") auto
      have step: "palLoop rs i j = palLoop rs (i + 1) (j - 1)"
        using eq lt rng by (subst palLoop.simps) simp
      have "(\<forall>k. i + 1 \<le> k \<and> k \<le> j - 1 \<longrightarrow> rs ! nat k = rs ! nat (i + 1 + (j - 1) - k))
          = ?P i j"
      proof (intro iffI allI impI)
        fix k assume a: "\<forall>k. i + 1 \<le> k \<and> k \<le> j - 1 \<longrightarrow> rs ! nat k = rs ! nat (i + 1 + (j - 1) - k)"
          and k: "i \<le> k \<and> k \<le> j"
        have sm: "i + 1 + (j - 1) - k = i + j - k" by simp
        consider "k = i" | "k = j" | "i + 1 \<le> k \<and> k \<le> j - 1" using k by linarith
        then show "rs ! nat k = rs ! nat (i + j - k)"
        proof cases
          case 1 then show ?thesis using eq by simp
        next
          case 2 then show ?thesis using eq by simp
        next
          case 3 then show ?thesis using a [rule_format, of k] sm by simp
        qed
      next
        fix k assume a: "?P i j" and k: "i + 1 \<le> k \<and> k \<le> j - 1"
        have sm: "i + 1 + (j - 1) - k = i + j - k" by simp
        from k have "i \<le> k \<and> k \<le> j" by simp
        then have "rs ! nat k = rs ! nat (i + j - k)" by (rule a [rule_format])
        then show "rs ! nat k = rs ! nat (i + 1 + (j - 1) - k)" by (simp only: sm)
      qed
      with ih step show ?thesis by (simp only:)
    qed
  qed
qed

lemma rev_eq_iff_nth:
  "(rev rs = rs) = (\<forall>k. 0 \<le> k \<and> k \<le> int (length rs) - 1 \<longrightarrow> rs ! nat k = rs ! nat (0 + (int (length rs) - 1) - k))"
proof
  assume r: "rev rs = rs"
  show "\<forall>k. 0 \<le> k \<and> k \<le> int (length rs) - 1 \<longrightarrow> rs ! nat k = rs ! nat (0 + (int (length rs) - 1) - k)"
  proof (intro allI impI)
    fix k :: int assume k: "0 \<le> k \<and> k \<le> int (length rs) - 1"
    then have lt: "nat k < length rs" by linarith
    have "rs ! nat k = rev rs ! nat k" using r by simp
    also have "\<dots> = rs ! (length rs - Suc (nat k))" using lt by (simp add: rev_nth)
    also have "length rs - Suc (nat k) = nat (0 + (int (length rs) - 1) - k)" using k by linarith
    finally show "rs ! nat k = rs ! nat (0 + (int (length rs) - 1) - k)" .
  qed
next
  assume a: "\<forall>k. 0 \<le> k \<and> k \<le> int (length rs) - 1 \<longrightarrow> rs ! nat k = rs ! nat (0 + (int (length rs) - 1) - k)"
  show "rev rs = rs"
  proof (rule nth_equalityI)
    show "length (rev rs) = length rs" by simp
  next
    fix n assume "n < length (rev rs)"
    then have n: "n < length rs" by simp
    then have "0 \<le> int n \<and> int n \<le> int (length rs) - 1" by linarith
    then have "rs ! nat (int n) = rs ! nat (0 + (int (length rs) - 1) - int n)"
      by (rule a [rule_format])
    moreover have "nat (0 + (int (length rs) - 1) - int n) = length rs - Suc n" using n by linarith
    ultimately have "rs ! n = rs ! (length rs - Suc n)" by simp
    then show "rev rs ! n = rs ! n" using n by (simp add: rev_nth)
  qed
qed

lemma isPalindrome_rev: "isPalindrome L s = Some (rev (strings_ToLower L s) = strings_ToLower L s)"
proof -
  let ?rs = "strings_ToLower L s"
  have "palLoop ?rs 0 (int (length ?rs) - 1) =
      Some (\<forall>k. 0 \<le> k \<and> k \<le> int (length ?rs) - 1 \<longrightarrow>
              ?rs ! nat k = ?rs ! nat (0 + (int (length ?rs) - 1) - k))"
    by (rule palLoop_inv) simp_all
  then show ?thesis
    unfolding isPalindrome_def Let_def by (simp only: rev_eq_iff_nth [symmetric])
qed

lemma analyzeString_Some:
  "analyzeString L s =
     Some \<lparr> Length = int (length s),
            IsPalindrome = (rev (strings_ToLower L s) = strings_ToLower L s),
            UniqueCharacters = int (length (charFreqMap s)),
            WordCount = wordCount s,
            SHA256Hash = computeHash L s,
            CharacterFrequencyMap = charFreqMap s \<rparr>"
  by (simp add: analyzeString_def isPalindrome_rev Let_def)

lemmas lower_defs = ascii_def strings_ToLower_def unicode_ToLower_def



subsection \<open>The frequency map\<close>

lemma distinct_incr: "distinct (map fst m) \<Longrightarrow> distinct (map fst (incr m k))"
  by (simp add: incr_def distinct_update)

lemma sum_update_new:
  "map_of m k = None \<Longrightarrow>
   sum_list (map snd (AList.update k v m)) = sum_list (map snd m) + (v::int)"
  by (induction m) (auto split: if_splits)

lemma sum_update_old:
  "map_of m k = Some c \<Longrightarrow>
   sum_list (map snd (AList.update k v m)) = sum_list (map snd m) - c + (v::int)"
  by (induction m) (auto split: if_splits)

lemma sum_incr: "sum_list (map snd (incr m k)) = sum_list (map snd m) + 1"
  by (cases "map_of m k") (simp_all add: incr_def sum_update_new sum_update_old)

lemma foldl_incr_sum:
  "sum_list (map snd (foldl (\<lambda>m r. incr m (string_of_rune r)) m s))
     = sum_list (map snd m) + int (length s)"
  by (induction s arbitrary: m) (simp_all add: sum_incr)

lemma foldl_incr_distinct:
  "distinct (map fst m) \<Longrightarrow>
   distinct (map fst (foldl (\<lambda>m r. incr m (string_of_rune r)) m s))"
  by (induction s arbitrary: m) (simp_all add: distinct_incr)

lemma charFreqMap_sum: "sum_list (map snd (charFreqMap s)) = int (length s)"
  by (simp add: charFreqMap_def foldl_incr_sum)

lemma charFreqMap_distinct: "distinct (map fst (charFreqMap s))"
  by (simp add: charFreqMap_def foldl_incr_distinct)

lemma charFreqMap_banana:
  "charFreqMap (ascii ''banana'') = [([0x62], 1), ([0x61], 3), ([0x6E], 2)]"
  by (simp add: charFreqMap_def ascii_def incr_def string_of_rune_def)

text \<open>
  C8. For every string, the analysis exists, the keys of its frequency map are pairwise
  different, and the values of the map add up to the field \<open>Length\<close>, which is the number
  of code points of the string.
\<close>

theorem charFreq_sum_eq_length:
  "\<exists>p. analyzeString L s = Some p
     \<and> distinct (map fst (CharacterFrequencyMap p))
     \<and> sum_list (map snd (CharacterFrequencyMap p)) = Length p
     \<and> Length p = int (length s)"
  by (simp add: analyzeString_Some charFreqMap_sum charFreqMap_distinct)

theorem charFreq_sum_eq_length_witness:
  "map_option (\<lambda>p. (sum_list (map snd (CharacterFrequencyMap p)), Length p))
     (analyzeString asciiLib (ascii ''banana'')) = Some (6, 6)"
  using charFreq_sum_eq_length [of asciiLib "ascii ''banana''"]
  by (auto simp: ascii_def)

subsection \<open>Records of reachable stores\<close>

lemma charFreqMap_card: "card (fst ` set (charFreqMap s)) = length (charFreqMap s)"
  using distinct_card [OF charFreqMap_distinct, of s] by simp

lemma analyzeString_unique:
  "analyzeString L v = Some p \<Longrightarrow>
   UniqueCharacters p = int (card (fst ` set (CharacterFrequencyMap p)))"
  by (auto simp: analyzeString_Some charFreqMap_card)

lemma postLookup_Inr:
  "postLookup L now v st0 = Inr item \<Longrightarrow>
   analyzeString L v = Some (Properties item) \<and> ID item = computeHash L v \<and> Value item = v
   \<and> map_of st0 (computeHash L v) = None"
  by (auto simp: postLookup_def analyzeString_Some Let_def split: if_splits)

lemma set_update_subset: "set (AList.update k v al) \<subseteq> insert (k, v) (set al)"
  by (induction al) auto

lemma set_delete_subset: "set (AList.delete k al) \<subseteq> set al"
  by (induction al) auto

lemma reachable_analyzed:
  "reachable L st \<Longrightarrow> (k, item) \<in> set st \<Longrightarrow> \<exists>v. analyzeString L v = Some (Properties item)"
proof (induction arbitrary: k item rule: reachable.induct)
  case reach_empty
  then show ?case by simp
next
  case (reach_insert st now v st0 new)
  from reach_insert.prems have "(k, item) = (ID new, new) \<or> (k, item) \<in> set st"
    using set_update_subset [of "ID new" new st] by (auto simp: postInsert_def)
  then show ?case
  proof
    assume "(k, item) = (ID new, new)"
    then show ?thesis using postLookup_Inr [OF reach_insert.hyps(2)] by auto
  next
    assume "(k, item) \<in> set st"
    then show ?thesis by (rule reach_insert.IH)
  qed
next
  case (reach_delete st key)
  then show ?case using set_delete_subset [of key st] by blast
qed

lemma postStringsHandler_reachable:
  "reachable L st \<Longrightarrow> reachable L (snd (postStringsHandler L now m d st))"
  by (auto simp: postStringsHandler_def split: option.splits sum.splits intro: reach_insert)

lemma deleteStringHandler_reachable:
  "reachable L st \<Longrightarrow> reachable L (snd (deleteStringHandler L m d st))"
  by (auto simp: deleteStringHandler_def Let_def split: option.splits intro: reach_delete)

lemma stepGoroutine_reachable:
  "reachable L st \<Longrightarrow> pending L g \<Longrightarrow>
   reachable L (snd (stepGoroutine L g st)) \<and> pending L (fst (stepGoroutine L g st))"
  by (cases g) (auto simp: stepGoroutine_def split: sum.splits intro: reach_insert)

lemma runSchedule_reachable:
  "reachable L st \<Longrightarrow> list_all (pending L) gs \<Longrightarrow>
   reachable L (snd (runSchedule L sched (gs, st)))"
proof (induction sched arbitrary: gs st)
  case Nil
  then show ?case by simp
next
  case (Cons i sched)
  show ?case
  proof (cases "i < length gs")
    case False
    then show ?thesis using Cons by simp
  next
    case True
    obtain g' st' where step: "stepGoroutine L (gs ! i) st = (g', st')"
      by (cases "stepGoroutine L (gs ! i) st")
    have "pending L (gs ! i)" using Cons.prems(2) True by (simp add: list_all_length)
    with stepGoroutine_reachable [OF Cons.prems(1), of "gs ! i"] step
    have r: "reachable L st'" and p: "pending L g'" by auto
    have "list_all (pending L) (gs[i := g'])"
      using Cons.prems(2) p set_update_subset_insert [of gs i g'] by (auto simp: list_all_iff)
    from Cons.IH [OF r this] show ?thesis using True step by simp
  qed
qed

text \<open>
  C10. For every string, the field \<open>UniqueCharacters\<close> of the analysis is the number of
  distinct keys of its frequency map; and in every store that requests can produce, in
  any interleaving, every record satisfies the same equation.
\<close>

theorem unique_eq_keys:
  "(\<exists>p. analyzeString L s = Some p
        \<and> UniqueCharacters p = int (card (fst ` set (CharacterFrequencyMap p))))
   \<and> (reachable L st \<longrightarrow>
        (\<forall>item \<in> snd ` set st.
           UniqueCharacters (Properties item)
             = int (card (fst ` set (CharacterFrequencyMap (Properties item))))))"
proof
  show "\<exists>p. analyzeString L s = Some p
        \<and> UniqueCharacters p = int (card (fst ` set (CharacterFrequencyMap p)))"
    using analyzeString_unique [of L s] by (simp add: analyzeString_Some)
next
  show "reachable L st \<longrightarrow>
        (\<forall>item \<in> snd ` set st.
           UniqueCharacters (Properties item)
             = int (card (fst ` set (CharacterFrequencyMap (Properties item)))))"
  proof (intro impI ballI)
    fix item assume r: "reachable L st" and "item \<in> snd ` set st"
    then obtain k where "(k, item) \<in> set st" by auto
    from reachable_analyzed [OF r this] obtain v
      where "analyzeString L v = Some (Properties item)" ..
    then show "UniqueCharacters (Properties item)
             = int (card (fst ` set (CharacterFrequencyMap (Properties item))))"
      by (rule analyzeString_unique)
  qed
qed


theorem unique_eq_keys_witness:
  "reachable asciiLib
     (snd (postStringsHandler asciiLib [] POST (Some (CreateReq (JString (ascii ''banana'')))) []))
   \<and> list_all (\<lambda>item. UniqueCharacters (Properties item) = 3
                  \<and> card (fst ` set (CharacterFrequencyMap (Properties item))) = 3)
       (map snd (snd (postStringsHandler asciiLib [] POST
                        (Some (CreateReq (JString (ascii ''banana'')))) [])))"
proof -
  let ?st = "snd (postStringsHandler asciiLib [] POST (Some (CreateReq (JString (ascii ''banana'')))) [])"
  have r: "reachable asciiLib ?st"
    by (rule postStringsHandler_reachable) (rule reach_empty)
  have st: "?st = [(ascii ''banana'',
      \<lparr> ID = ascii ''banana'', Value = ascii ''banana'',
        Properties = \<lparr> Length = 6, IsPalindrome = False, UniqueCharacters = 3,
                       WordCount = wordCount (ascii ''banana''),
                       SHA256Hash = ascii ''banana'',
                       CharacterFrequencyMap = [([0x62], 1), ([0x61], 3), ([0x6E], 2)] \<rparr>,
        CreatedAt = [] \<rparr>)]"
    by (simp add: postStringsHandler_def validateCreateBody_def postLookup_def analyzeString_Some
        postInsert_def charFreqMap_def incr_def string_of_rune_def computeHash_def asciiLib_def
        lower_defs)
  from unique_eq_keys [of asciiLib "[]" ?st] r
  have "\<forall>item \<in> snd ` set ?st. UniqueCharacters (Properties item)
             = int (card (fst ` set (CharacterFrequencyMap (Properties item))))"
    by blast
  then show ?thesis using r unfolding st by simp
qed

subsection \<open>The word count\<close>














end
